theory Spec2Isabelle
  imports Complex_Main
begin

section \<open>Tree distances: Robinson-Foulds and Boot-Split Distance matrices\<close>

text \<open>
  A shallow embedding of \<^verbatim>\<open>workflow/scripts/tree_distances.py\<close>. The script is Python 3:
  \<^verbatim>\<open>/\<close> is true division. Python floats are modelled by the reals, so rounding is
  not part of the model; every division whose divisor can be zero is written out with its
  \<^verbatim>\<open>ZeroDivisionError\<close>.
\<close>

subsection \<open>Objects of the tree library\<close>

text \<open>
  Modelled from the spec: the node, bipartition and tree classes of the external tree
  library (imported as \<^verbatim>\<open>dd\<close>) are not part of the repository. The script reads
  four things from them. Iterating a tree (\<^verbatim>\<open>for bip in tree\<close>) yields its node
  objects in preorder; a node carries the \<^verbatim>\<open>split_bitmask\<close> of the bipartition
  of its edge and an optional \<^verbatim>\<open>label\<close>, the bootstrap support, an integer
  percentage (section 3 of the specification); \<^verbatim>\<open>tree.encode_bipartitions()\<close>
  returns the list of the tree's bipartitions, each identified by its bitmask; and objects
  have an identity, which \<^verbatim>\<open>is\<close> compares. The Newick reader hands the label
  over as the text of the integer, which \<^verbatim>\<open>get_sum\<close> converts with
  \<^verbatim>\<open>int\<close>; the record holds the integer. A label that is not an integer is
  outside this data model.
\<close>

record node =
  node_id :: nat
  taxon :: "string option"
  label :: "int option"
  split_bitmask :: int

record tree =
  tree_id :: nat
  preorder_nodes :: "node list"
  encode_bipartitions :: "int list"
  taxon_namespace :: "string list"

text \<open>
  The two functions of the library that the script calls:
  \<^verbatim>\<open>split.split_as_newick_string(taxon_namespace)\<close> and
  \<^verbatim>\<open>treecompare.weighted_robinson_foulds_distance(t1, t2)\<close>. They are parameters
  of the model.
\<close>

record dendropy =
  split_as_newick_string :: "int \<Rightarrow> string list \<Rightarrow> string"
  weighted_robinson_foulds_distance :: "tree \<Rightarrow> tree \<Rightarrow> real"

subsection \<open>Python values, names and exceptions\<close>

datatype pyobj =
    IntObj int
  | StrObj string
  | NodeObj node
  | TreeObj tree
  | ListObj "pyobj list"

datatype error =
    NameError string
  | AssertionError string
  | ZeroDivisionError
  | KeyError
  | IndexError
  | TypeError

text \<open>
  \<^verbatim>\<open>n == obj\<close> for an integer \<^verbatim>\<open>n\<close>: the integer's comparison declines
  every object that is not a number, and the reflected comparison of a string, a list, a node
  or a tree (both compare by identity) is false for an integer.
\<close>

fun int_eq_obj :: "int \<Rightarrow> pyobj \<Rightarrow> bool" where
  "int_eq_obj n (IntObj m) = (n = m)"
| "int_eq_obj n (StrObj s) = False"
| "int_eq_obj n (NodeObj b) = False"
| "int_eq_obj n (TreeObj t) = False"
| "int_eq_obj n (ListObj xs) = False"

text \<open>\<^verbatim>\<open>obj is tree_ref\<close> where \<^verbatim>\<open>tree_ref\<close> is a tree object.\<close>

fun is_tree_ref :: "pyobj \<Rightarrow> tree \<Rightarrow> bool" where
  "is_tree_ref (TreeObj t') t = (tree_id t' = tree_id t)"
| "is_tree_ref (IntObj n) t = False"
| "is_tree_ref (StrObj s) t = False"
| "is_tree_ref (NodeObj b) t = False"
| "is_tree_ref (ListObj xs) t = False"

text \<open>
  The global namespace of the module: a name is bound to an object or unbound. A function
  body that reads a name which is neither a parameter nor bound here raises
  \<^verbatim>\<open>NameError\<close> (no builtin has any of the names read below).
\<close>

type_synonym globals = "string \<Rightarrow> pyobj option"

text \<open>
  Every name the module binds at top level: its imports, its functions, the variables
  assigned in the \<^verbatim>\<open>if __name__ == '__main__'\<close> block, and the names every
  module has.
\<close>

definition module_names :: "string list" where
  "module_names =
    [''os'', ''sys'', ''argparse'', ''logging'', ''csv'', ''dd'', ''treecompare'',
     ''get_bipartitions'', ''get_shared'', ''get_diff'', ''get_pruned_bips'', ''get_sum'',
     ''get_mean_BSD'', ''eBSD'', ''dBSD'', ''BSD'', ''get_bsd'', ''make_distance_matrix'',
     ''parser'', ''args'', ''path_invalid'', ''files'', ''trees'', ''filename'', ''name'',
     ''tree_name'', ''file'', ''tree_temp'', ''taxa'', ''dd_trees'', ''i'', ''tree'',
     ''tree_dict'',
     ''__name__'', ''__doc__'', ''__package__'', ''__loader__'', ''__spec__'', ''__file__'',
     ''__cached__'', ''__builtins__'', ''__annotations__'']"

definition bound_by_module :: "globals \<Rightarrow> bool" where
  "bound_by_module g = (dom g \<subseteq> set module_names)"

text \<open>\<^verbatim>\<open>obj[i]\<close> for a list or a string; nothing else used here is subscriptable.\<close>

fun py_getitem :: "pyobj \<Rightarrow> nat \<Rightarrow> error + pyobj" where
  "py_getitem (ListObj xs) i = (if i < length xs then Inr (xs ! i) else Inl IndexError)"
| "py_getitem (StrObj s) i = (if i < length s then Inr (StrObj [s ! i]) else Inl IndexError)"
| "py_getitem (IntObj n) i = Inl TypeError"
| "py_getitem (NodeObj b) i = Inl TypeError"
| "py_getitem (TreeObj t) i = Inl TypeError"

subsection \<open>\<^verbatim>\<open>get_bipartitions\<close>\<close>

text \<open>
  \<^verbatim>\<open>
  bipartitions = []
  bip_strings = []
  for bip in tree:
      tree_bip = [split.split_as_newick_string(tree.taxon_namespace)
                  for split in tree.encode_bipartitions()]
      bip_strings.append(tree_bip)
      bipartitions.append(bip)
  return bipartitions, bip_strings
  \<close>
  The loop runs over the nodes of the tree; the accumulators are threaded through.
\<close>

fun get_bipartitions_loop ::
  "dendropy \<Rightarrow> tree \<Rightarrow> node list \<Rightarrow> node list \<times> string list list
    \<Rightarrow> node list \<times> string list list" where
  "get_bipartitions_loop lib tree [] (bipartitions, bip_strings) = (bipartitions, bip_strings)"
| "get_bipartitions_loop lib tree (bip # rest) (bipartitions, bip_strings) =
     (let tree_bip = map (\<lambda>split. split_as_newick_string lib split (taxon_namespace tree))
                         (encode_bipartitions tree)
      in get_bipartitions_loop lib tree rest (bipartitions @ [bip], bip_strings @ [tree_bip]))"

definition get_bipartitions :: "dendropy \<Rightarrow> tree \<Rightarrow> node list \<times> string list list" where
  "get_bipartitions lib tree = get_bipartitions_loop lib tree (preorder_nodes tree) ([], [])"

subsection \<open>\<^verbatim>\<open>get_shared\<close> and \<^verbatim>\<open>get_diff\<close>\<close>

text \<open>
  \<^verbatim>\<open>
  def get_shared(firstTreeLeaves, secondTreeLeaves):
      in_common = list(set(firstTreeNodes)&set(secondTreeNodes))
      assert (len(in_common) < 4), "Trees have less than 4 species in common: ..."
      return in_common
  \<close>
  The body reads \<^verbatim>\<open>firstTreeNodes\<close> and \<^verbatim>\<open>secondTreeNodes\<close>, which are not
  its parameters, so they are looked up in the global namespace, the first one first. Were
  both bound to lists, the intersection would be taken (the order in which a Python set
  lists its elements is not fixed; the model keeps the order of the first list).
\<close>

definition assert_message :: string where
  "assert_message = ''Trees have less than 4 species in common: cannot be compared!''"

definition get_shared :: "globals \<Rightarrow> pyobj \<Rightarrow> pyobj \<Rightarrow> error + pyobj list" where
  "get_shared g firstTreeLeaves secondTreeLeaves =
     (case g ''firstTreeNodes'' of
        None \<Rightarrow> Inl (NameError ''firstTreeNodes'')
      | Some firstTreeNodes \<Rightarrow>
          (case g ''secondTreeNodes'' of
             None \<Rightarrow> Inl (NameError ''secondTreeNodes'')
           | Some secondTreeNodes \<Rightarrow>
               (case (firstTreeNodes, secondTreeNodes) of
                  (ListObj xs, ListObj ys) \<Rightarrow>
                    (let in_common = remdups (filter (\<lambda>x. x \<in> set ys) xs)
                     in if length in_common < 4 then Inr in_common
                        else Inl (AssertionError assert_message))
                | _ \<Rightarrow> Inl TypeError)))"

text \<open>
  \<^verbatim>\<open>return list(set(firstTreeLeaves)^set(secondTreeLeaves))\<close>
\<close>

definition get_diff :: "string list \<Rightarrow> string list \<Rightarrow> string list" where
  "get_diff firstTreeLeaves secondTreeLeaves =
     remdups (filter (\<lambda>x. x \<notin> set secondTreeLeaves) firstTreeLeaves
              @ filter (\<lambda>x. x \<notin> set firstTreeLeaves) secondTreeLeaves)"

subsection \<open>\<^verbatim>\<open>get_pruned_bips\<close>\<close>

text \<open>
  \<^verbatim>\<open>
  for i in range(len(bips1)):
      found = False
      if any(x.split_bitmask == bips1[i] for x in bips2):
          found = True
      if found:
          bipsEqual.append(bips1[i])
      else:
          bipsDiff.append(bips1[i])
  \<close>
  The index runs over the whole list, so the loop visits the elements of
  \<^verbatim>\<open>bips1\<close> in order. The test compares the integer
  \<^verbatim>\<open>x.split_bitmask\<close> with the object \<^verbatim>\<open>bips1[i]\<close> itself, not with
  its bitmask.
\<close>

fun first_loop :: "node list \<Rightarrow> node list \<Rightarrow> node list \<times> node list \<Rightarrow> node list \<times> node list" where
  "first_loop [] bips2 (bipsDiff, bipsEqual) = (bipsDiff, bipsEqual)"
| "first_loop (b # rest) bips2 (bipsDiff, bipsEqual) =
     (let found = list_ex (\<lambda>x. int_eq_obj (split_bitmask x) (NodeObj b)) bips2
      in if found then first_loop rest bips2 (bipsDiff, bipsEqual @ [b])
         else first_loop rest bips2 (bipsDiff @ [b], bipsEqual))"

text \<open>
  \<^verbatim>\<open>
  for j in range(len(bips2)):
      found = False
      if any(x.split_bitmask == bips2[j] for x in bips1):
          found = True
      if found:
          if not any(x.split_bitmask == bips2[j] for x in bipsEqual):
              bipsEqual.append(bips2[j])
      else:
          if not any(x.split_bitmask == bips2[j] for x in bipsDiff):
              bipsDiff.append(bips2[j])
  \<close>
\<close>

fun second_loop :: "node list \<Rightarrow> node list \<Rightarrow> node list \<times> node list \<Rightarrow> node list \<times> node list" where
  "second_loop [] bips1 (bipsDiff, bipsEqual) = (bipsDiff, bipsEqual)"
| "second_loop (b # rest) bips1 (bipsDiff, bipsEqual) =
     (let found = list_ex (\<lambda>x. int_eq_obj (split_bitmask x) (NodeObj b)) bips1
      in if found then
           (if \<not> list_ex (\<lambda>x. int_eq_obj (split_bitmask x) (NodeObj b)) bipsEqual
            then second_loop rest bips1 (bipsDiff, bipsEqual @ [b])
            else second_loop rest bips1 (bipsDiff, bipsEqual))
         else
           (if \<not> list_ex (\<lambda>x. int_eq_obj (split_bitmask x) (NodeObj b)) bipsDiff
            then second_loop rest bips1 (bipsDiff @ [b], bipsEqual)
            else second_loop rest bips1 (bipsDiff, bipsEqual)))"

definition get_pruned_bips ::
  "node list \<Rightarrow> string list list \<Rightarrow> node list \<Rightarrow> string list list \<Rightarrow> node list \<times> node list" where
  "get_pruned_bips bips1 bipStrings1 bips2 bipStrings2 =
     second_loop bips2 bips1 (first_loop bips1 bips2 ([], []))"

subsection \<open>\<^verbatim>\<open>get_sum\<close> and \<^verbatim>\<open>get_mean_BSD\<close>\<close>

text \<open>
  \<^verbatim>\<open>
  nums = []
  for i in range(len(bipartitions)):
      if (bipartitions[i].label is not None):
          num = bipartitions[i].label
          nums.append(num)
  BS_vals = list(map(int, nums))
  for i in range(len(BS_vals)):
      BS_vals[i] = float(BS_vals[i]/100)
  sum_BS = sum(BS_vals)
  return sum_BS, nums
  \<close>
  \<^verbatim>\<open>int\<close> yields the integer of the label, which is what the record holds.
\<close>

fun collect_nums :: "node list \<Rightarrow> int list \<Rightarrow> int list" where
  "collect_nums [] nums = nums"
| "collect_nums (b # rest) nums =
     (case label b of
        None \<Rightarrow> collect_nums rest nums
      | Some num \<Rightarrow> collect_nums rest (nums @ [num]))"

definition get_sum :: "node list \<Rightarrow> real \<times> int list" where
  "get_sum bipartitions =
     (let nums = collect_nums bipartitions [];
          BS_vals = map (\<lambda>v. real_of_int v / 100) nums;
          sum_BS = sum_list BS_vals
      in (sum_BS, nums))"

text \<open>
  \<^verbatim>\<open>
  if len(listBS) == 0:
      return 0
  else:
      return float(sumBS/len(listBS))
  \<close>
\<close>

definition get_mean_BSD :: "real \<Rightarrow> int list \<Rightarrow> real" where
  "get_mean_BSD sumBS listBS =
     (if length listBS = 0 then 0 else sumBS / real (length listBS))"

subsection \<open>\<^verbatim>\<open>eBSD\<close>, \<^verbatim>\<open>dBSD\<close>, \<^verbatim>\<open>BSD\<close>\<close>

text \<open>
  \<^verbatim>\<open>return (1 - ((sum_mutual_split_BS/sum_total_BS)*mean_BS_mutual))\<close>
  and \<^verbatim>\<open>return ((sum_diff_split_BS/sum_total_BS)*mean_BS_diff)\<close>: the division
  raises when the total is zero.
\<close>

definition eBSD :: "real \<Rightarrow> real \<Rightarrow> real \<Rightarrow> error + real" where
  "eBSD sum_total_BS sum_mutual_split_BS mean_BS_mutual =
     (if sum_total_BS = 0 then Inl ZeroDivisionError
      else Inr (1 - ((sum_mutual_split_BS / sum_total_BS) * mean_BS_mutual)))"

definition dBSD :: "real \<Rightarrow> real \<Rightarrow> real \<Rightarrow> error + real" where
  "dBSD sum_total_BS sum_diff_split_BS mean_BS_diff =
     (if sum_total_BS = 0 then Inl ZeroDivisionError
      else Inr ((sum_diff_split_BS / sum_total_BS) * mean_BS_diff))"

definition BSD :: "real \<Rightarrow> real \<Rightarrow> real \<Rightarrow> real \<Rightarrow> real \<Rightarrow> error + real \<times> real \<times> real" where
  "BSD sum_total_BS sum_mutual_split_BS sum_diff_split_BS mean_BS_mutual mean_BS_diff =
     (case eBSD sum_total_BS sum_mutual_split_BS mean_BS_mutual of
        Inl e \<Rightarrow> Inl e
      | Inr equalBSD \<Rightarrow>
          (case dBSD sum_total_BS sum_diff_split_BS mean_BS_diff of
             Inl e \<Rightarrow> Inl e
           | Inr diffBSD \<Rightarrow>
               (let bootSplitDist = (equalBSD + diffBSD) / 2
                in Inr (bootSplitDist, equalBSD, diffBSD))))"

subsection \<open>\<^verbatim>\<open>get_bsd\<close>\<close>

type_synonym bsd_result = "real \<times> real \<times> real \<times> real \<times> real \<times> real \<times> real \<times> real"

definition get_bsd :: "dendropy \<Rightarrow> tree \<Rightarrow> tree \<Rightarrow> error + bsd_result" where
  "get_bsd lib tree_1 tree_2 =
     (let (bips_1, names_1) = get_bipartitions lib tree_1;
          (bips_2, names_2) = get_bipartitions lib tree_2;
          (bipsDiff, bipsEqual) = get_pruned_bips bips_1 names_1 bips_2 names_2;
          (sum_1, toDiscard1) = get_sum bips_1;
          (sum_2, toDiscard2) = get_sum bips_2;
          sum_total_BS = sum_1 + sum_2;
          (sum_mutual_BS, list_mutual_BS) = get_sum bipsEqual;
          (sum_diff_BS, list_diff_BS) = get_sum bipsDiff;
          mean_BS_mutual = get_mean_BSD sum_mutual_BS list_mutual_BS;
          mean_BS_diff = get_mean_BSD sum_diff_BS list_diff_BS
      in case BSD sum_total_BS sum_mutual_BS sum_diff_BS mean_BS_mutual mean_BS_diff of
           Inl e \<Rightarrow> Inl e
         | Inr (BSD_val, eBSD_val, dBSD_val) \<Rightarrow>
             Inr (BSD_val, eBSD_val, dBSD_val, sum_total_BS, sum_mutual_BS, sum_diff_BS,
                  mean_BS_mutual, mean_BS_diff))"

subsection \<open>\<^verbatim>\<open>make_distance_matrix\<close>\<close>

text \<open>
  The rows handed to \<^verbatim>\<open>csv_writer.writerow\<close> are lists of strings and numbers.
  \<^verbatim>\<open>tree_dict\<close> is a dictionary from tree objects (hashed by identity) to display
  labels, kept as an association list in insertion order.
\<close>

datatype cell = Str string | Num real

fun dict_get :: "(tree \<times> string) list \<Rightarrow> tree \<Rightarrow> error + string" where
  "dict_get [] t = Inl KeyError"
| "dict_get ((k, v) # kvs) t = (if tree_id k = tree_id t then Inr v else dict_get kvs t)"

text \<open>
  \<^verbatim>\<open>
  for i in range(len(tree_list)):
      if trees[i] is not tree_ref:
          if (dist_type == 'rf'):
              dist_val = treecompare.weighted_robinson_foulds_distance(
                  tree_ref, tree_list[i], is_bipartitions_updated=True)
          else:
              dist_val, eBSD, dBSD, ... = get_bsd(tree_ref, tree_list[i])
          distances.append(dist_val)
  \<close>
  \<^verbatim>\<open>trees\<close> is not a parameter of the function: it is read from the global
  namespace, where the main block binds it to the list of the Newick texts read from the
  files (\<^verbatim>\<open>trees.append(tree_temp)\<close>). The list of tree objects is the parameter
  \<^verbatim>\<open>tree_list\<close>.
\<close>

fun distances_loop ::
  "dendropy \<Rightarrow> globals \<Rightarrow> tree \<Rightarrow> tree list \<Rightarrow> string \<Rightarrow> nat list \<Rightarrow> cell list
    \<Rightarrow> error + cell list" where
  "distances_loop lib g tree_ref tree_list dist_type [] distances = Inr distances"
| "distances_loop lib g tree_ref tree_list dist_type (i # rest) distances =
     (case g ''trees'' of
        None \<Rightarrow> Inl (NameError ''trees'')
      | Some trees \<Rightarrow>
          (case py_getitem trees i of
             Inl e \<Rightarrow> Inl e
           | Inr trees_i \<Rightarrow>
               if \<not> is_tree_ref trees_i tree_ref then
                 (if dist_type = ''rf'' then
                    (let dist_val = weighted_robinson_foulds_distance lib tree_ref (tree_list ! i)
                     in distances_loop lib g tree_ref tree_list dist_type rest
                          (distances @ [Num dist_val]))
                  else
                    (case get_bsd lib tree_ref (tree_list ! i) of
                       Inl e \<Rightarrow> Inl e
                     | Inr (dist_val, eBSD_val, dBSD_val, sum_total, sum_mutual, sum_diff,
                            mean_mutual, mean_diff) \<Rightarrow>
                         distances_loop lib g tree_ref tree_list dist_type rest
                           (distances @ [Num dist_val])))
               else distances_loop lib g tree_ref tree_list dist_type rest distances))"

text \<open>
  \<^verbatim>\<open>
  for tree_ref in tree_list:
      distances = []
      distances.append(tree_dict[tree_ref])
      ...
      csv_writer.writerow(distances)
  \<close>
\<close>

fun rows_loop ::
  "dendropy \<Rightarrow> globals \<Rightarrow> (tree \<times> string) list \<Rightarrow> tree list \<Rightarrow> string \<Rightarrow> tree list
    \<Rightarrow> cell list list \<Rightarrow> error + cell list list" where
  "rows_loop lib g tree_dict tree_list dist_type [] rows = Inr rows"
| "rows_loop lib g tree_dict tree_list dist_type (tree_ref # rest) rows =
     (case dict_get tree_dict tree_ref of
        Inl e \<Rightarrow> Inl e
      | Inr row_header \<Rightarrow>
          (case distances_loop lib g tree_ref tree_list dist_type [0..<length tree_list]
                  [Str row_header] of
             Inl e \<Rightarrow> Inl e
           | Inr distances \<Rightarrow>
               rows_loop lib g tree_dict tree_list dist_type rest (rows @ [distances])))"

text \<open>
  The result is the name of the file and the rows written to it, the header first. An
  exception leaves the function; the rows written before it are not part of the model.
\<close>

definition make_distance_matrix ::
  "dendropy \<Rightarrow> globals \<Rightarrow> (tree \<times> string) list \<Rightarrow> tree list \<Rightarrow> string
    \<Rightarrow> error + string \<times> cell list list" where
  "make_distance_matrix lib g tree_dict tree_list dist_type =
     (let file_name = (if dist_type = ''rf'' then ''rf_matrix.csv'' else ''bsd_matrix.csv'');
          header = Str '','' # map (\<lambda>(tree, name). Str name) tree_dict
      in case rows_loop lib g tree_dict tree_list dist_type tree_list [header] of
           Inl e \<Rightarrow> Inl e
         | Inr rows \<Rightarrow> Inr (file_name, rows))"

subsection \<open>Example inputs\<close>

text \<open>
  Two trees over the namespace \<open>A, B, C, D, E, F\<close> (bits 1, 2, 4, 8, 16, 32):
  \<^verbatim>\<open>((A,B)90,C,D);\<close> and \<^verbatim>\<open>((A,B)80,E,F);\<close>. Each has six nodes, in preorder
  the root, the inner node that carries the support label, and the four leaves, and six
  bipartitions, one per edge. The trees have the two taxa \<open>A\<close> and \<open>B\<close> in common.
\<close>

definition mk_node :: "nat \<Rightarrow> string option \<Rightarrow> int option \<Rightarrow> int \<Rightarrow> node" where
  "mk_node i tx l m = \<lparr>node_id = i, taxon = tx, label = l, split_bitmask = m\<rparr>"

definition tree_x :: tree where
  "tree_x = \<lparr>tree_id = 1,
     preorder_nodes =
       [mk_node 10 None None 15, mk_node 11 None (Some 90) 3, mk_node 12 (Some ''A'') None 1,
        mk_node 13 (Some ''B'') None 2, mk_node 14 (Some ''C'') None 4,
        mk_node 15 (Some ''D'') None 8],
     encode_bipartitions = [1, 2, 3, 4, 8, 15],
     taxon_namespace = [''A'', ''B'', ''C'', ''D'', ''E'', ''F'']\<rparr>"

definition tree_y :: tree where
  "tree_y = \<lparr>tree_id = 2,
     preorder_nodes =
       [mk_node 20 None None 51, mk_node 21 None (Some 80) 3, mk_node 22 (Some ''A'') None 1,
        mk_node 23 (Some ''B'') None 2, mk_node 24 (Some ''E'') None 16,
        mk_node 25 (Some ''F'') None 32],
     encode_bipartitions = [1, 2, 3, 16, 32, 51],
     taxon_namespace = [''A'', ''B'', ''C'', ''D'', ''E'', ''F'']\<rparr>"

text \<open>A second object for the first tree: the same text parsed again.\<close>

definition tree_x_again :: tree where
  "tree_x_again = tree_x\<lparr>tree_id := 3\<rparr>"

text \<open>A tree without any support label: the star \<^verbatim>\<open>(A,B,C);\<close>.\<close>

definition tree_star :: tree where
  "tree_star = \<lparr>tree_id = 4,
     preorder_nodes =
       [mk_node 40 None None 7, mk_node 41 (Some ''A'') None 1, mk_node 42 (Some ''B'') None 2,
        mk_node 43 (Some ''C'') None 4],
     encode_bipartitions = [1, 2, 4, 7],
     taxon_namespace = [''A'', ''B'', ''C'', ''D'', ''E'', ''F'']\<rparr>"

text \<open>
  A stand-in for the library: the Newick text of a bipartition is abbreviated to a marker
  per bitmask, and the weighted Robinson-Foulds distance to a constant. No result below
  depends on either.
\<close>

definition newick_stub :: "int \<Rightarrow> string list \<Rightarrow> string" where
  "newick_stub m ns = (if m = 3 then ''((A,B),(rest));'' else ''(one,(rest));'')"

definition rf_stub :: "tree \<Rightarrow> tree \<Rightarrow> real" where
  "rf_stub t1 t2 = 0"

definition lib_stub :: dendropy where
  "lib_stub = \<lparr>split_as_newick_string = newick_stub,
                weighted_robinson_foulds_distance = rf_stub\<rparr>"

text \<open>
  The global namespace as the main block leaves it for a directory holding the two tree
  files: \<^verbatim>\<open>trees\<close> is the list of the two Newick texts.
\<close>

definition main_globals :: globals where
  "main_globals =
     [''trees'' \<mapsto> ListObj [StrObj ''((A,B)90,C,D);'', StrObj ''((A,B)80,E,F);'']]"

definition main_tree_dict :: "(tree \<times> string) list" where
  "main_tree_dict = [(tree_x, ''tree_x''), (tree_y, ''tree_y'')]"

text \<open>The taxa of the leaves of a tree, and the taxa two trees have in common.\<close>

definition leaf_taxa :: "tree \<Rightarrow> string list" where
  "leaf_taxa t = List.map_filter taxon (preorder_nodes t)"

definition common_taxa :: "tree \<Rightarrow> tree \<Rightarrow> string list" where
  "common_taxa t1 t2 = remdups (filter (\<lambda>x. x \<in> set (leaf_taxa t2)) (leaf_taxa t1))"

subsection \<open>Vocabulary of the properties\<close>

text \<open>
  What section 4.1 of the specification says the extractor returns: the bitmasks of the
  tree's bipartitions in order and, for each of them, its Newick string.
\<close>

definition get_bipartitions_spec :: "dendropy \<Rightarrow> tree \<Rightarrow> int list \<times> string list" where
  "get_bipartitions_spec lib tree =
     (encode_bipartitions tree,
      map (\<lambda>split. split_as_newick_string lib split (taxon_namespace tree))
          (encode_bipartitions tree))"

text \<open>
  Two tree objects are identical when their nodes, read in order, have the same taxa, support
  labels and bitmasks, and their bipartitions are the same; only the identities of the
  objects may differ.
\<close>

definition identical_trees :: "tree \<Rightarrow> tree \<Rightarrow> bool" where
  "identical_trees t1 t2 =
     (map taxon (preorder_nodes t1) = map taxon (preorder_nodes t2)
      \<and> map label (preorder_nodes t1) = map label (preorder_nodes t2)
      \<and> map split_bitmask (preorder_nodes t1) = map split_bitmask (preorder_nodes t2)
      \<and> encode_bipartitions t1 = encode_bipartitions t2)"

text \<open>Every support label of the tree is a percentage.\<close>

definition labels_are_percentages :: "tree \<Rightarrow> bool" where
  "labels_are_percentages t =
     list_all (\<lambda>b. case label b of None \<Rightarrow> True | Some l \<Rightarrow> 0 \<le> l \<and> l \<le> 100)
              (preorder_nodes t)"

text \<open>No node of the tree carries a support label.\<close>

definition no_support_labels :: "tree \<Rightarrow> bool" where
  "no_support_labels t = list_all (\<lambda>b. label b = None) (preorder_nodes t)"

section \<open>Properties\<close>

subsection \<open>What the loops compute\<close>

text \<open>
  The test of both loops of \<^verbatim>\<open>get_pruned_bips\<close> compares a bitmask with a node
  object, so it never succeeds.
\<close>

lemma no_bitmask_is_a_node:
  "list_ex (\<lambda>x. int_eq_obj (split_bitmask x) (NodeObj b)) zs = False"
  by (simp add: list_ex_iff)

lemma first_loop_appends: "first_loop xs ys (d, e) = (d @ xs, e)"
  by (induction xs arbitrary: d) (simp_all add: no_bitmask_is_a_node del: int_eq_obj.simps)

lemma second_loop_appends: "second_loop ys xs (d, e) = (d @ ys, e)"
  by (induction ys arbitrary: d) (simp_all add: no_bitmask_is_a_node del: int_eq_obj.simps)

lemma get_pruned_bips_all_differing:
  "get_pruned_bips bips1 bipStrings1 bips2 bipStrings2 = (bips1 @ bips2, [])"
  by (simp add: get_pruned_bips_def first_loop_appends second_loop_appends)

lemma get_bipartitions_loop_appends:
  "get_bipartitions_loop lib tree ns (bs, ss) =
     (bs @ ns, ss @ replicate (length ns)
        (map (\<lambda>split. split_as_newick_string lib split (taxon_namespace tree))
             (encode_bipartitions tree)))"
  by (induction ns arbitrary: bs ss) (simp_all add: replicate_app_Cons_same)

lemma fst_get_bipartitions: "fst (get_bipartitions lib tree) = preorder_nodes tree"
  by (simp add: get_bipartitions_def get_bipartitions_loop_appends)

lemma collect_nums_appends:
  "collect_nums bs nums =
     nums @ map (\<lambda>b. the (label b)) (filter (\<lambda>b. label b \<noteq> None) bs)"
  by (induction bs arbitrary: nums) (auto split: option.splits)

lemma get_sum_labelled:
  "get_sum bs =
     (\<Sum>b\<leftarrow>filter (\<lambda>b. label b \<noteq> None) bs. real_of_int (the (label b)) / 100,
      map (\<lambda>b. the (label b)) (filter (\<lambda>b. label b \<noteq> None) bs))"
  by (simp add: get_sum_def collect_nums_appends comp_def)

lemma get_sum_append:
  "get_sum (xs @ ys) = (fst (get_sum xs) + fst (get_sum ys), snd (get_sum xs) @ snd (get_sum ys))"
  by (simp add: get_sum_labelled)

lemma get_sum_Nil: "get_sum [] = (0, [])"
  by (simp add: get_sum_def)

lemma get_sum_unlabelled:
  "list_all (\<lambda>b. label b = None) bs \<Longrightarrow> get_sum bs = (0, [])"
  by (induction bs) (simp_all add: get_sum_def)

lemma collect_nums_labels:
  "collect_nums bs nums =
     nums @ concat (map (\<lambda>l. case l of None \<Rightarrow> [] | Some n \<Rightarrow> [n]) (map label bs))"
  by (induction bs arbitrary: nums) (auto split: option.splits)

lemma get_sum_same_labels:
  "map label xs = map label ys \<Longrightarrow> get_sum xs = get_sum ys"
  by (simp add: get_sum_def collect_nums_labels)

lemma get_sum_fst_snd:
  "fst (get_sum bs) = (\<Sum>v\<leftarrow>snd (get_sum bs). real_of_int v / 100)"
  by (simp add: get_sum_def Let_def)

lemma get_sum_nonneg:
  "list_all (\<lambda>b. case label b of None \<Rightarrow> True | Some l \<Rightarrow> 0 \<le> l \<and> l \<le> 100) bs
   \<Longrightarrow> 0 \<le> fst (get_sum bs)"
  by (induction bs) (auto simp: get_sum_labelled)

text \<open>\<^verbatim>\<open>get_bsd\<close> with its local variables spelled out.\<close>

lemma get_bsd_unfold:
  "get_bsd lib tree_1 tree_2 =
     (let bips_1 = fst (get_bipartitions lib tree_1);
          bips_2 = fst (get_bipartitions lib tree_2);
          pruned = get_pruned_bips bips_1 (snd (get_bipartitions lib tree_1))
                                   bips_2 (snd (get_bipartitions lib tree_2));
          sum_total = fst (get_sum bips_1) + fst (get_sum bips_2);
          sum_sh = fst (get_sum (snd pruned));
          sum_df = fst (get_sum (fst pruned));
          mean_sh = get_mean_BSD sum_sh (snd (get_sum (snd pruned)));
          mean_df = get_mean_BSD sum_df (snd (get_sum (fst pruned)))
      in if sum_total = 0 then Inl ZeroDivisionError
         else Inr ((1 - (sum_sh / sum_total) * mean_sh + (sum_df / sum_total) * mean_df) / 2,
                   1 - (sum_sh / sum_total) * mean_sh, (sum_df / sum_total) * mean_df,
                   sum_total, sum_sh, sum_df, mean_sh, mean_df))"
  by (simp add: get_bsd_def BSD_def eBSD_def dBSD_def case_prod_beta Let_def)

lemma get_sum_tree_x: "get_sum (preorder_nodes tree_x) = (9 / 10, [90])"
  by (simp add: get_sum_def tree_x_def mk_node_def)

lemma get_sum_tree_y: "get_sum (preorder_nodes tree_y) = (4 / 5, [80])"
  by (simp add: get_sum_def tree_y_def mk_node_def)

subsection \<open>The bipartition matcher\<close>

text \<open>
  C1. The matcher is to return as \<open>shared\<close> the bipartitions whose bitmask occurs in both
  sequences and as \<open>differing\<close> those whose bitmask occurs in one only. The code compares
  \<^verbatim>\<open>x.split_bitmask\<close> with the object \<^verbatim>\<open>bips1[i]\<close>, not with its bitmask:
  for two sequences holding one object each, both with the bitmask 3, it returns both
  objects as differing and nothing as shared.
\<close>

theorem get_pruned_bips_same_bitmask_differing:
  "get_pruned_bips [mk_node 11 None (Some 90) 3] [[''((A,B),(rest));'']]
                   [mk_node 21 None (Some 80) 3] [[''((A,B),(rest));'']]
   = ([mk_node 11 None (Some 90) 3, mk_node 21 None (Some 80) 3], [])"
  by (simp add: get_pruned_bips_def mk_node_def)

text \<open>
  C8. Matching is symmetric in the shared collection: the bitmasks of what
  \<^verbatim>\<open>get_pruned_bips\<close> returns as shared for \<open>A\<close> and \<open>B\<close> are those it returns
  as shared for \<open>B\<close> and \<open>A\<close>.
\<close>

theorem get_pruned_bips_shared_symmetric:
  "set (map split_bitmask (snd (get_pruned_bips A namesA B namesB)))
   = set (map split_bitmask (snd (get_pruned_bips B namesB A namesA)))"
  by (simp add: get_pruned_bips_all_differing)

subsection \<open>The bipartition extractor\<close>

text \<open>
  C9, as stated: the extractor returns the bitmasks of the bipartitions and one Newick
  string for each. It fails for the star tree: each of the four entries of the second
  component is the list of all four strings, so the strings returned are not one per
  bipartition.
\<close>

theorem get_bipartitions_not_one_string_each:
  "map length (snd (get_bipartitions lib_stub tree_star)) = [4, 4, 4, 4]
   \<and> concat (snd (get_bipartitions lib_stub tree_star))
       \<noteq> snd (get_bipartitions_spec lib_stub tree_star)"
  by (simp add: get_bipartitions_def get_bipartitions_spec_def tree_star_def lib_stub_def)

text \<open>
  C9, amended: for every tree the extractor returns the node objects of the tree in
  iteration order (each carries the bitmask and the support label of its bipartition) and,
  for each node, the list of the Newick strings of all bipartitions of the tree, in the order
  of the tree's bipartition encoding.
\<close>

theorem get_bipartitions_nodes_and_strings:
  "get_bipartitions lib tree =
     (preorder_nodes tree,
      replicate (length (preorder_nodes tree))
        (map (\<lambda>split. split_as_newick_string lib split (taxon_namespace tree))
             (encode_bipartitions tree)))"
  by (simp add: get_bipartitions_def get_bipartitions_loop_appends)

subsection \<open>The BSD calculator\<close>

text \<open>
  C2. Whenever the total support is not zero, \<^verbatim>\<open>BSD\<close> returns
  \<open>eBSD = 1 - (sum_shared / sum_total) * mean_shared\<close>,
  \<open>dBSD = (sum_differing / sum_total) * mean_differing\<close> and \<open>BSD = (eBSD + dBSD) / 2\<close>;
  and when the total is the sum of the supports of the two trees' full bipartition lists,
  \<^verbatim>\<open>get_bsd\<close> returns that total and three values related by these equations.
\<close>

theorem BSD_formulas:
  assumes "sum_total \<noteq> 0"
  shows "BSD sum_total sum_shared sum_differing mean_shared mean_differing =
           Inr (((1 - (sum_shared / sum_total) * mean_shared)
                  + (sum_differing / sum_total) * mean_differing) / 2,
                1 - (sum_shared / sum_total) * mean_shared,
                (sum_differing / sum_total) * mean_differing)
         \<and> (sum_total = fst (get_sum (fst (get_bipartitions lib tree_1)))
                          + fst (get_sum (fst (get_bipartitions lib tree_2)))
            \<longrightarrow> (\<exists>BSD_val eBSD_val dBSD_val sum_sh sum_df mean_sh mean_df.
                  get_bsd lib tree_1 tree_2 =
                    Inr (BSD_val, eBSD_val, dBSD_val, sum_total, sum_sh, sum_df, mean_sh, mean_df)
                  \<and> eBSD_val = 1 - (sum_sh / sum_total) * mean_sh
                  \<and> dBSD_val = (sum_df / sum_total) * mean_df
                  \<and> BSD_val = (eBSD_val + dBSD_val) / 2))"
proof
  show "BSD sum_total sum_shared sum_differing mean_shared mean_differing =
           Inr (((1 - (sum_shared / sum_total) * mean_shared)
                  + (sum_differing / sum_total) * mean_differing) / 2,
                1 - (sum_shared / sum_total) * mean_shared,
                (sum_differing / sum_total) * mean_differing)"
    using assms by (simp add: BSD_def eBSD_def dBSD_def)
next
  show "sum_total = fst (get_sum (fst (get_bipartitions lib tree_1)))
                          + fst (get_sum (fst (get_bipartitions lib tree_2)))
            \<longrightarrow> (\<exists>BSD_val eBSD_val dBSD_val sum_sh sum_df mean_sh mean_df.
                  get_bsd lib tree_1 tree_2 =
                    Inr (BSD_val, eBSD_val, dBSD_val, sum_total, sum_sh, sum_df, mean_sh, mean_df)
                  \<and> eBSD_val = 1 - (sum_sh / sum_total) * mean_sh
                  \<and> dBSD_val = (sum_df / sum_total) * mean_df
                  \<and> BSD_val = (eBSD_val + dBSD_val) / 2)"
  proof
    assume total: "sum_total = fst (get_sum (fst (get_bipartitions lib tree_1)))
                          + fst (get_sum (fst (get_bipartitions lib tree_2)))"
    define pruned where "pruned = get_pruned_bips (fst (get_bipartitions lib tree_1))
        (snd (get_bipartitions lib tree_1)) (fst (get_bipartitions lib tree_2))
        (snd (get_bipartitions lib tree_2))"
    define sum_sh where "sum_sh = fst (get_sum (snd pruned))"
    define sum_df where "sum_df = fst (get_sum (fst pruned))"
    define mean_sh where "mean_sh = get_mean_BSD sum_sh (snd (get_sum (snd pruned)))"
    define mean_df where "mean_df = get_mean_BSD sum_df (snd (get_sum (fst pruned)))"
    have "get_bsd lib tree_1 tree_2 =
            Inr ((1 - (sum_sh / sum_total) * mean_sh + (sum_df / sum_total) * mean_df) / 2,
                 1 - (sum_sh / sum_total) * mean_sh, (sum_df / sum_total) * mean_df,
                 sum_total, sum_sh, sum_df, mean_sh, mean_df)"
      using assms total
      unfolding get_bsd_unfold pruned_def sum_sh_def sum_df_def mean_sh_def mean_df_def
      by (simp add: Let_def)
    then show "\<exists>BSD_val eBSD_val dBSD_val sum_sh sum_df mean_sh mean_df.
                  get_bsd lib tree_1 tree_2 =
                    Inr (BSD_val, eBSD_val, dBSD_val, sum_total, sum_sh, sum_df, mean_sh, mean_df)
                  \<and> eBSD_val = 1 - (sum_sh / sum_total) * mean_sh
                  \<and> dBSD_val = (sum_df / sum_total) * mean_df
                  \<and> BSD_val = (eBSD_val + dBSD_val) / 2"
      by blast
  qed
qed

text \<open>
  The formulas at the two example trees, whose supports 9/10 and 4/5 add up to 17/10.
\<close>

theorem BSD_formulas_witness:
  "(17 / 10 :: real) \<noteq> 0
   \<and> BSD (17 / 10) 0 (17 / 10) 0 (17 / 20) = Inr (37 / 40, 1, 17 / 20)
   \<and> 17 / 10 = fst (get_sum (fst (get_bipartitions lib_stub tree_x)))
                 + fst (get_sum (fst (get_bipartitions lib_stub tree_y)))
   \<and> (\<exists>BSD_val eBSD_val dBSD_val sum_sh sum_df mean_sh mean_df.
         get_bsd lib_stub tree_x tree_y =
           Inr (BSD_val, eBSD_val, dBSD_val, 17 / 10, sum_sh, sum_df, mean_sh, mean_df)
         \<and> eBSD_val = 1 - (sum_sh / (17 / 10)) * mean_sh
         \<and> dBSD_val = (sum_df / (17 / 10)) * mean_df
         \<and> BSD_val = (eBSD_val + dBSD_val) / 2)"
  using BSD_formulas [of "17 / 10" 0 "17 / 10" 0 "17 / 20" lib_stub tree_x tree_y]
  by (simp add: fst_get_bipartitions get_sum_tree_x get_sum_tree_y)

text \<open>
  C3, as stated: for two identical trees the BSD value is 0 (and so is the RF distance). It
  fails for two objects of the tree \<^verbatim>\<open>((A,B)90,C,D);\<close>: the BSD value returned is
  19/20.
\<close>

theorem get_bsd_identical_trees_nonzero:
  "identical_trees tree_x tree_x_again
   \<and> get_bsd lib_stub tree_x tree_x_again = Inr (19 / 20, 1, 9 / 10, 9 / 5, 0, 9 / 5, 0, 9 / 10)
   \<and> (19 / 20 :: real) \<noteq> 0"
proof -
  have same: "preorder_nodes tree_x_again = preorder_nodes tree_x"
    by (simp add: tree_x_again_def)
  have "get_sum (preorder_nodes tree_x @ preorder_nodes tree_x) = (9 / 5, [90, 90])"
    by (simp add: get_sum_append get_sum_tree_x)
  then have "get_bsd lib_stub tree_x tree_x_again
       = Inr (19 / 20, 1, 9 / 10, 9 / 5, 0, 9 / 5, 0, 9 / 10)"
    by (simp add: get_bsd_unfold Let_def fst_get_bipartitions get_pruned_bips_all_differing
        same get_sum_tree_x get_sum_Nil get_mean_BSD_def)
  moreover have "identical_trees tree_x tree_x_again"
    by (simp add: identical_trees_def tree_x_again_def)
  ultimately show ?thesis by simp
qed

text \<open>
  C3, amended: for two identical trees whose support labels are percentages and whose
  support sum is not zero, \<^verbatim>\<open>get_bsd\<close> returns, and the BSD value it returns is
  strictly positive. (The total counts the support of both trees, so the quotient of the
  shared support by the total cannot reach 1. The RF distance is computed by the library
  alone.)
\<close>

theorem get_bsd_identical_trees_positive:
  assumes same: "identical_trees tree_1 tree_2"
    and pct: "labels_are_percentages tree_1"
    and nonzero: "fst (get_sum (preorder_nodes tree_1)) \<noteq> 0"
  shows "\<exists>BSD_val eBSD_val dBSD_val sum_total sum_sh sum_df mean_sh mean_df.
           get_bsd lib tree_1 tree_2 =
             Inr (BSD_val, eBSD_val, dBSD_val, sum_total, sum_sh, sum_df, mean_sh, mean_df)
           \<and> 0 < BSD_val"
proof -
  define s where "s = fst (get_sum (preorder_nodes tree_1))"
  define nums where "nums = snd (get_sum (preorder_nodes tree_1))"
  have sum_1: "get_sum (preorder_nodes tree_1) = (s, nums)"
    by (simp add: s_def nums_def)
  have sum_2: "get_sum (preorder_nodes tree_2) = (s, nums)"
    using same get_sum_same_labels [of "preorder_nodes tree_2" "preorder_nodes tree_1"] sum_1
    by (simp add: identical_trees_def)
  have "0 \<le> s"
    using pct unfolding s_def labels_are_percentages_def by (rule get_sum_nonneg)
  with nonzero have s_pos: "0 < s"
    by (simp add: s_def)
  have "nums \<noteq> []"
  proof
    assume "nums = []"
    then have "s = 0"
      using get_sum_fst_snd [of "preorder_nodes tree_1"] by (simp add: s_def nums_def)
    with s_pos show False by simp
  qed
  then have len_pos: "0 < length nums" by simp
  define md where "md = (s + s) / real (length nums + length nums)"
  have md_pos: "0 < md"
    using s_pos len_pos by (simp add: md_def)
  have both: "get_sum (preorder_nodes tree_1 @ preorder_nodes tree_2) = (s + s, nums @ nums)"
    by (simp add: get_sum_append sum_1 sum_2)
  have "get_bsd lib tree_1 tree_2 = Inr ((1 + md) / 2, 1, md, s + s, 0, s + s, 0, md)"
    using s_pos len_pos
    by (simp add: get_bsd_unfold Let_def fst_get_bipartitions get_pruned_bips_all_differing
        sum_1 sum_2 both get_sum_Nil get_mean_BSD_def md_def)
  moreover have "0 < (1 + md) / 2"
    using md_pos by simp
  ultimately show ?thesis by blast
qed

theorem get_bsd_identical_trees_positive_witness:
  "identical_trees tree_x tree_x_again \<and> labels_are_percentages tree_x
   \<and> fst (get_sum (preorder_nodes tree_x)) \<noteq> 0
   \<and> (\<exists>BSD_val eBSD_val dBSD_val sum_total sum_sh sum_df mean_sh mean_df.
           get_bsd lib_stub tree_x tree_x_again =
             Inr (BSD_val, eBSD_val, dBSD_val, sum_total, sum_sh, sum_df, mean_sh, mean_df)
           \<and> 0 < BSD_val)"
proof -
  have h1: "identical_trees tree_x tree_x_again"
    by (simp add: identical_trees_def tree_x_again_def)
  have h2: "labels_are_percentages tree_x"
    by (simp add: labels_are_percentages_def tree_x_def mk_node_def)
  have h3: "fst (get_sum (preorder_nodes tree_x)) \<noteq> 0"
    by (simp add: get_sum_tree_x)
  show ?thesis
    using h1 h2 h3 get_bsd_identical_trees_positive [OF h1 h2 h3, of lib_stub] by blast
qed

text \<open>
  C4. Two trees with fewer than four taxa in common are to be refused. \<^verbatim>\<open>get_bsd\<close>
  never calls \<^verbatim>\<open>get_shared\<close>, the only place where the overlap would be checked:
  for the two example trees, which have two taxa in common, it returns a distance.
\<close>

theorem get_bsd_two_common_taxa_returns:
  "common_taxa tree_x tree_y = [''A'', ''B'']
   \<and> get_bsd lib_stub tree_x tree_y
       = Inr (37 / 40, 1, 17 / 20, 17 / 10, 0, 17 / 10, 0, 17 / 20)"
proof
  show "common_taxa tree_x tree_y = [''A'', ''B'']"
    by (simp add: common_taxa_def leaf_taxa_def List.map_filter_def tree_x_def tree_y_def
        mk_node_def)
next
  have "get_sum (preorder_nodes tree_x @ preorder_nodes tree_y) = (17 / 10, [90, 80])"
    by (simp add: get_sum_append get_sum_tree_x get_sum_tree_y)
  then show "get_bsd lib_stub tree_x tree_y
       = Inr (37 / 40, 1, 17 / 20, 17 / 10, 0, 17 / 10, 0, 17 / 20)"
    by (simp add: get_bsd_unfold Let_def fst_get_bipartitions get_pruned_bips_all_differing
        get_sum_tree_x get_sum_tree_y get_sum_Nil get_mean_BSD_def)
qed

text \<open>
  C5. When no node of either tree carries a support label, the total support is zero and
  the BSD computation fails: the division in \<^verbatim>\<open>eBSD\<close> raises
  \<^verbatim>\<open>ZeroDivisionError\<close>, which is the error the specification calls DegenerateInput.
  No value, hence no NaN and no infinity, is returned.
\<close>

theorem get_bsd_no_labels_ZeroDivisionError:
  assumes "no_support_labels tree_1" and "no_support_labels tree_2"
  shows "get_bsd lib tree_1 tree_2 = Inl ZeroDivisionError"
  using assms
  by (simp add: get_bsd_unfold Let_def fst_get_bipartitions no_support_labels_def
      get_sum_unlabelled)

theorem get_bsd_no_labels_ZeroDivisionError_witness:
  "no_support_labels tree_star \<and> no_support_labels tree_star
   \<and> get_bsd lib_stub tree_star tree_star = Inl ZeroDivisionError"
proof -
  have h: "no_support_labels tree_star"
    by (simp add: no_support_labels_def tree_star_def mk_node_def)
  show ?thesis
    using h get_bsd_no_labels_ZeroDivisionError [OF h h, of lib_stub] by simp
qed

subsection \<open>The support aggregator\<close>

text \<open>
  C6. For every list of bipartitions, \<^verbatim>\<open>get_sum\<close> returns the sum of
  \<open>label / 100\<close> over exactly the bipartitions that carry a label, together with those
  labels, and \<^verbatim>\<open>get_mean_BSD\<close> returns that sum divided by their number, or 0
  when there is none.
\<close>

theorem get_sum_and_mean:
  "get_sum bips =
     (\<Sum>b\<leftarrow>filter (\<lambda>b. label b \<noteq> None) bips. real_of_int (the (label b)) / 100,
      map (\<lambda>b. the (label b)) (filter (\<lambda>b. label b \<noteq> None) bips))
   \<and> get_mean_BSD (fst (get_sum bips)) (snd (get_sum bips)) =
       (if length (filter (\<lambda>b. label b \<noteq> None) bips) = 0 then 0
        else (\<Sum>b\<leftarrow>filter (\<lambda>b. label b \<noteq> None) bips. real_of_int (the (label b)) / 100)
             / real (length (filter (\<lambda>b. label b \<noteq> None) bips)))"
  by (simp add: get_sum_labelled get_mean_BSD_def)

theorem get_sum_and_mean_witness:
  "get_sum (preorder_nodes tree_x @ preorder_nodes tree_y) = (17 / 10, [90, 80])
   \<and> get_mean_BSD (17 / 10) [90, 80] = 17 / 20
   \<and> get_sum (preorder_nodes tree_star) = (0, [])
   \<and> get_mean_BSD 0 [] = 0"
  using get_sum_and_mean [of "preorder_nodes tree_x @ preorder_nodes tree_y"]
    get_sum_and_mean [of "preorder_nodes tree_star"]
  by (simp add: tree_x_def tree_y_def tree_star_def mk_node_def get_mean_BSD_def)

subsection \<open>The matrix builder\<close>

text \<open>
  C7. A tree is never to be compared with itself, so a data row holds one distance for each
  other tree. The guard of the code reads \<^verbatim>\<open>trees[i]\<close>, an element of the global
  list of Newick texts, instead of \<^verbatim>\<open>tree_list[i]\<close>; a text is never the tree
  object, so no cell is skipped: for the two example trees every row holds two distances,
  the first row starting with the distance of the first tree to itself.
\<close>

theorem make_distance_matrix_compares_tree_with_itself:
  "make_distance_matrix lib_stub main_globals main_tree_dict [tree_x, tree_y] ''bsd''
   = Inr (''bsd_matrix.csv'',
          [[Str '','', Str ''tree_x'', Str ''tree_y''],
           [Str ''tree_x'', Num (19 / 20), Num (37 / 40)],
           [Str ''tree_y'', Num (37 / 40), Num (9 / 10)]])"
proof -
  have xx: "get_bsd lib_stub tree_x tree_x = Inr (19 / 20, 1, 9 / 10, 9 / 5, 0, 9 / 5, 0, 9 / 10)"
    by (simp add: get_bsd_unfold Let_def fst_get_bipartitions get_pruned_bips_all_differing
        get_sum_append get_sum_tree_x get_sum_Nil get_mean_BSD_def)
  have xy: "get_bsd lib_stub tree_x tree_y
       = Inr (37 / 40, 1, 17 / 20, 17 / 10, 0, 17 / 10, 0, 17 / 20)"
    by (simp add: get_bsd_unfold Let_def fst_get_bipartitions get_pruned_bips_all_differing
        get_sum_append get_sum_tree_x get_sum_tree_y get_sum_Nil get_mean_BSD_def)
  have yx: "get_bsd lib_stub tree_y tree_x
       = Inr (37 / 40, 1, 17 / 20, 17 / 10, 0, 17 / 10, 0, 17 / 20)"
    by (simp add: get_bsd_unfold Let_def fst_get_bipartitions get_pruned_bips_all_differing
        get_sum_append get_sum_tree_x get_sum_tree_y get_sum_Nil get_mean_BSD_def)
  have yy: "get_bsd lib_stub tree_y tree_y = Inr (9 / 10, 1, 4 / 5, 8 / 5, 0, 8 / 5, 0, 4 / 5)"
    by (simp add: get_bsd_unfold Let_def fst_get_bipartitions get_pruned_bips_all_differing
        get_sum_append get_sum_tree_y get_sum_Nil get_mean_BSD_def)
  have ids: "tree_id tree_x = 1" "tree_id tree_y = 2"
    by (simp_all add: tree_x_def tree_y_def)
  have upt2: "[0..<2] = [0, 1]"
    by (simp add: upt_rec)
  show ?thesis
    by (simp add: make_distance_matrix_def main_globals_def main_tree_dict_def ids upt2
        xx xy yx yy)
qed

subsection \<open>The overlap check\<close>

text \<open>
  C10. Whatever the arguments, \<^verbatim>\<open>get_shared\<close> raises \<^verbatim>\<open>NameError\<close> on
  \<^verbatim>\<open>firstTreeNodes\<close> before it reaches its assertion: the name is not a parameter
  and is not among the names the module binds, so no call returns a list of common leaves.
\<close>

theorem get_shared_NameError:
  assumes "bound_by_module g"
  shows "get_shared g firstTreeLeaves secondTreeLeaves = Inl (NameError ''firstTreeNodes'')"
proof -
  have "''firstTreeNodes'' \<notin> set module_names"
    by (simp add: module_names_def)
  with assms have "g ''firstTreeNodes'' = None"
    unfolding bound_by_module_def by blast
  then show ?thesis
    by (simp add: get_shared_def)
qed

theorem get_shared_NameError_witness:
  "bound_by_module main_globals
   \<and> get_shared main_globals (ListObj [StrObj ''A'', StrObj ''B'', StrObj ''C'', StrObj ''D''])
        (ListObj [StrObj ''A'', StrObj ''B'', StrObj ''E'', StrObj ''F''])
      = Inl (NameError ''firstTreeNodes'')"
proof -
  have h: "bound_by_module main_globals"
    by (simp add: bound_by_module_def main_globals_def module_names_def)
  show ?thesis
    using h get_shared_NameError [OF h] by simp
qed

end
